theory Spec2Isabelle
  imports Complex_Main "HOL-Library.Sublist" "HOL-Library.Multiset" "HOL-Library.Word"
begin

section \<open>Strings and exceptions\<close>

text \<open>
  Python strings are modelled as \<open>string\<close> (lists of 8-bit characters). \<open>str.lower()\<close>
  is modelled on the ASCII letters, which is all the literals of the program need;
  characters outside ASCII are left as they are.
\<close>

definition lower_char :: "char \<Rightarrow> char" where
  "lower_char c =
     (case map_of (zip ''ABCDEFGHIJKLMNOPQRSTUVWXYZ'' ''abcdefghijklmnopqrstuvwxyz'') c of
        Some l \<Rightarrow> l
      | None \<Rightarrow> c)"

definition lower :: "string \<Rightarrow> string" where
  "lower s = map lower_char s"

text \<open>\<open>s.startswith(p)\<close>, \<open>s.endswith(p)\<close> and the substring test \<open>sub in s\<close>.\<close>

fun startswith :: "string \<Rightarrow> string \<Rightarrow> bool" where
  "startswith s [] = True"
| "startswith [] (p # ps) = False"
| "startswith (c # cs) (p # ps) = (c = p \<and> startswith cs ps)"

definition endswith :: "string \<Rightarrow> string \<Rightarrow> bool" where
  "endswith s p = startswith (rev s) (rev p)"

fun str_in :: "string \<Rightarrow> string \<Rightarrow> bool" where
  "str_in sub [] = (sub = [])"
| "str_in sub (c # cs) = (startswith (c # cs) sub \<or> str_in sub cs)"

text \<open>
  An exception is its class and its message (\<open>str(e)\<close>). The first four classes are
  the program's own; \<open>OSError\<close>, \<open>TypeError\<close>, \<open>AttributeError\<close>,
  \<open>ImportError\<close>, \<open>WaveError\<close> (\<open>wave.Error\<close>) and \<open>StructError\<close>
  (\<open>struct.error\<close>) are the built-in and library classes the code meets; \<open>OtherException\<close> is any other subclass of \<open>Exception\<close>.
\<close>

datatype exc_class =
    AudioDeviceError
  | WASAPINotAvailableError
  | AudioRecorderError
  | RecordingInProgressError
  | OSError
  | TypeError
  | AttributeError
  | ImportError
  | WaveError
  | StructError
  | OtherException

datatype error = Exc exc_class string

fun class_of :: "error \<Rightarrow> exc_class" where
  "class_of (Exc c m) = c"

fun str :: "error \<Rightarrow> string" where
  "str (Exc c m) = m"

section \<open>devices.py: the device catalogue\<close>

text \<open>The dataclass \<open>AudioDevice\<close>. The sample rate is kept in whole Hz.\<close>

record AudioDevice =
  index :: nat
  name :: string
  max_input_channels :: int
  max_output_channels :: int
  default_sample_rate :: int
  host_api :: string
  is_loopback :: bool
  is_default :: bool

text \<open>
  The dictionaries of the native layer. A device dictionary holds, under \<open>'hostApi'\<close>,
  the index of the device's host API: \<open>list_all_devices\<close> passes that value to
  \<open>get_host_api_info_by_index\<close>, and \<open>_is_loopback_device\<close> reads it with the
  integer default \<open>0\<close>.
\<close>

record device_info =
  info_index :: nat
  info_name :: string
  hostApi :: int
  maxInputChannels :: int
  maxOutputChannels :: int
  defaultSampleRate :: int

record host_api_info =
  api_name :: string

text \<open>
  The native audio subsystem as the program queries it (the object \<open>self._audio\<close>):
  every query either answers or raises; \<open>pyaudio_init\<close> is the exception of the
  constructor \<open>pyaudio.PyAudio()\<close>, if it raises.
\<close>

record audio_system =
  pyaudio_init :: "error option"
  get_host_api_count :: "error + nat"
  get_host_api_info_by_index :: "int \<Rightarrow> error + host_api_info"
  get_device_count :: "error + nat"
  get_device_info_by_index :: "nat \<Rightarrow> error + device_info"
  get_default_input_device_info :: "error + device_info"
  get_default_output_device_info :: "error + device_info"

text \<open>The state of a \<open>DeviceManager\<close>: the cache, \<open>None\<close> until the first listing.\<close>

record DeviceManager =
  devices_cache :: "AudioDevice list option"

definition loopback_indicators :: "string list" where
  "loopback_indicators =
     [''loopback'', ''stereo mix'', ''what u hear'', ''wave out mix'',
      ''speakers ('', ''headphones ('']"

text \<open>
  \<open>_is_loopback_device\<close>. The last test of the source is
  \<open>'wasapi' in device_info.get('hostApi', 0)\<close>: its right operand is the integer host
  API index, and \<open>in\<close> with an integer on the right raises \<open>TypeError\<close>. Python's
  \<open>and\<close> evaluates it only when the two channel tests before it hold.
\<close>

definition is_loopback_device :: "device_info \<Rightarrow> error + bool" where
  "is_loopback_device device_info =
     (let device_name = lower (info_name device_info) in
      if list_ex (\<lambda>indicator. str_in indicator device_name) loopback_indicators
      then Inr True
      else if maxInputChannels device_info > 0 \<and> maxOutputChannels device_info = 0
      then Inl (Exc TypeError ''argument of type int is not iterable'')
      else Inr False)"

text \<open>\<open>_is_default_device\<close>: an exception of either query is logged and gives \<open>False\<close>.\<close>

definition is_default_device :: "audio_system \<Rightarrow> device_info \<Rightarrow> nat \<Rightarrow> bool" where
  "is_default_device audio device_info device_index =
     (case get_default_input_device_info audio of
        Inl e \<Rightarrow> False
      | Inr default_input \<Rightarrow>
          if info_index default_input = device_index then True
          else (case get_default_output_device_info audio of
                  Inl e \<Rightarrow> False
                | Inr default_output \<Rightarrow> info_index default_output = device_index))"

text \<open>The body of the \<open>try\<close> inside the loop of \<open>list_all_devices\<close>, for one index.\<close>

definition make_device :: "audio_system \<Rightarrow> nat \<Rightarrow> error + AudioDevice" where
  "make_device audio i =
     (case get_device_info_by_index audio i of
        Inl e \<Rightarrow> Inl e
      | Inr device_info \<Rightarrow>
          (case get_host_api_info_by_index audio (hostApi device_info) of
             Inl e \<Rightarrow> Inl e
           | Inr host_api_info \<Rightarrow>
               (case is_loopback_device device_info of
                  Inl e \<Rightarrow> Inl e
                | Inr lb \<Rightarrow>
                    Inr \<lparr>index = i,
                         name = info_name device_info,
                         max_input_channels = maxInputChannels device_info,
                         max_output_channels = maxOutputChannels device_info,
                         default_sample_rate = defaultSampleRate device_info,
                         host_api = api_name host_api_info,
                         is_loopback = lb,
                         is_default = is_default_device audio device_info i\<rparr>)))"

text \<open>The loop \<open>for i in range(device_count)\<close>: an index whose body raises is skipped.\<close>

fun enumerate_devices :: "audio_system \<Rightarrow> nat list \<Rightarrow> AudioDevice list" where
  "enumerate_devices audio [] = []"
| "enumerate_devices audio (i # is) =
     (case make_device audio i of
        Inl e \<Rightarrow> enumerate_devices audio is
      | Inr device \<Rightarrow> device # enumerate_devices audio is)"

definition list_all_devices ::
  "audio_system \<Rightarrow> DeviceManager \<Rightarrow> bool \<Rightarrow> error + (AudioDevice list \<times> DeviceManager)" where
  "list_all_devices audio self refresh_cache =
     (case (devices_cache self, refresh_cache) of
        (Some cached, False) \<Rightarrow> Inr (cached, self)
      | _ \<Rightarrow>
          (case get_device_count audio of
             Inl e \<Rightarrow> Inl (Exc AudioDeviceError (''Failed to list devices: '' @ str e))
           | Inr device_count \<Rightarrow>
               (let devices = enumerate_devices audio [0..<device_count]
                in Inr (devices, self\<lparr>devices_cache := Some devices\<rparr>))))"

text \<open>
  The selection of \<open>get_default_speakers\<close> over the listed devices;
  \<open>next((d for d in ds if d.is_default), None)\<close> is \<open>find\<close>.
\<close>

definition select_default_speakers :: "AudioDevice list \<Rightarrow> AudioDevice option" where
  "select_default_speakers devices =
     (let loopback_devices = filter is_loopback devices in
      case loopback_devices of
        first_loopback # _ \<Rightarrow>
          (case find is_default loopback_devices of
             Some default_loopback \<Rightarrow> Some default_loopback
           | None \<Rightarrow> Some first_loopback)
      | [] \<Rightarrow>
          (let wasapi_output_devices =
                 filter (\<lambda>d. lower (host_api d) = ''windows wasapi'' \<and> max_output_channels d > 0)
                   devices in
           case wasapi_output_devices of
             first_wasapi # _ \<Rightarrow>
               (case find is_default wasapi_output_devices of
                  Some default_wasapi \<Rightarrow> Some default_wasapi
                | None \<Rightarrow> Some first_wasapi)
           | [] \<Rightarrow> None))"

definition get_default_speakers ::
  "audio_system \<Rightarrow> DeviceManager \<Rightarrow> error + (AudioDevice option \<times> DeviceManager)" where
  "get_default_speakers audio self =
     (case list_all_devices audio self False of
        Inl e \<Rightarrow> Inl (Exc AudioDeviceError (''Failed to detect default device: '' @ str e))
      | Inr (devices, self') \<Rightarrow> Inr (select_default_speakers devices, self'))"

text \<open>
  \<open>get_recording_capable_devices\<close>. Python's \<open>sorted\<close> is a stable ascending sort by
  the key, as \<open>sort_key\<close> is; the key is the negated score.
\<close>

definition score :: "AudioDevice \<Rightarrow> int" where
  "score device =
     (if lower (host_api device) = ''windows wasapi'' then 30 else 0)
     + (if is_loopback device then 20 else 0)
     + (if is_default device then 10 else 0)"

definition sort_key_of :: "AudioDevice \<Rightarrow> int" where
  "sort_key_of device = - score device"

definition recording_capable :: "AudioDevice list \<Rightarrow> AudioDevice list" where
  "recording_capable devices =
     sort_key sort_key_of (filter (\<lambda>d. max_input_channels d > 0) devices)"

definition get_recording_capable_devices ::
  "audio_system \<Rightarrow> DeviceManager \<Rightarrow> error + (AudioDevice list \<times> DeviceManager)" where
  "get_recording_capable_devices audio self =
     (case list_all_devices audio self False of
        Inl e \<Rightarrow> Inl e
      | Inr (devices, self') \<Rightarrow> Inr (recording_capable devices, self'))"

text \<open>
  \<open>DeviceManager()\<close>: \<open>_is_wasapi_available\<close> looks for a host API named
  \<open>windows wasapi\<close>, any exception giving \<open>False\<close>; \<open>_initialize_audio_system\<close>
  raises \<open>WASAPINotAvailableError\<close> inside its own \<open>try\<close>, whose handler turns every
  exception into \<open>AudioDeviceError\<close>.
\<close>

fun wasapi_among :: "audio_system \<Rightarrow> nat list \<Rightarrow> bool" where
  "wasapi_among audio [] = False"
| "wasapi_among audio (i # is) =
     (case get_host_api_info_by_index audio (int i) of
        Inl e \<Rightarrow> False
      | Inr host_api_info \<Rightarrow>
          if lower (api_name host_api_info) = ''windows wasapi'' then True
          else wasapi_among audio is)"

definition is_wasapi_available :: "audio_system \<Rightarrow> bool" where
  "is_wasapi_available audio =
     (case get_host_api_count audio of
        Inl e \<Rightarrow> False
      | Inr host_api_count \<Rightarrow> wasapi_among audio [0..<host_api_count])"

definition DeviceManager_init :: "audio_system \<Rightarrow> error + DeviceManager" where
  "DeviceManager_init audio =
     (case pyaudio_init audio of
        Some e \<Rightarrow> Inl (Exc AudioDeviceError (''Could not initialize PyAudio: '' @ str e))
      | None \<Rightarrow>
          if \<not> is_wasapi_available audio
          then Inl (Exc AudioDeviceError
                 (''Could not initialize PyAudio: ''
                  @ ''WASAPI is not available on this system. ''
                  @ ''Loopback functionalities will not work.''))
          else Inr \<lparr>devices_cache = None\<rparr>)"

section \<open>recorder.py: the capture session\<close>

type_synonym byte = "8 word"

type_synonym bytes = "byte list"

text \<open>
  The dataclasses \<open>RecordingConfig\<close> and \<open>RecordingStats\<close>. Timestamps and durations
  are seconds, as \<open>real\<close>; \<open>max_duration\<close> is the optional whole number of seconds.
\<close>

record RecordingConfig =
  device :: AudioDevice
  sample_rate :: int
  channels :: int
  chunk_size :: int
  format :: int
  max_duration :: "int option"
  output_dir :: string
  audio_format :: string

record RecordingStats =
  start_time :: real
  end_time :: "real option"
  duration :: real
  file_size :: nat
  samples_recorded :: int
  filename :: "string option"

text \<open>
  The attributes of an \<open>AudioRecorder\<close> (\<open>self._config\<close>, \<open>self._stream\<close>, ...). A
  stream is the handle that the native layer returned.
\<close>

record AudioRecorder =
  self_config :: "RecordingConfig option"
  self_stream :: "nat option"
  self_recording :: bool
  self_frames :: "bytes list"
  self_stats :: "RecordingStats option"
  self_frames_captured :: int
  self_has_audio_detected :: bool
  self_audio_threshold :: real

definition paInt16 :: int where
  "paInt16 = 8"

text \<open>\<open>AudioRecorder.__init__\<close>, after the audio system has been initialised.\<close>

definition AudioRecorder_init :: "RecordingConfig option \<Rightarrow> AudioRecorder" where
  "AudioRecorder_init config =
     \<lparr>self_config = config,
      self_stream = None,
      self_recording = False,
      self_frames = [],
      self_stats = None,
      self_frames_captured = 0,
      self_has_audio_detected = False,
      self_audio_threshold = 100\<rparr>"

text \<open>
  \<open>set_device_auto\<close>: the first recording-capable device of a fresh \<open>DeviceManager\<close>;
  every exception gives \<open>False\<close>. The other fields of the new configuration take the
  defaults of the dataclass.
\<close>

definition auto_config :: "AudioDevice \<Rightarrow> RecordingConfig" where
  "auto_config d =
     \<lparr>device = d,
      sample_rate = default_sample_rate d,
      channels = (if max_input_channels d > 0 then min (max_input_channels d) 2 else 1),
      chunk_size = 4096,
      format = paInt16,
      max_duration = None,
      output_dir = ''storage/recordings'',
      audio_format = ''wav''\<rparr>"

definition set_device_auto :: "audio_system \<Rightarrow> AudioRecorder \<Rightarrow> bool \<times> AudioRecorder" where
  "set_device_auto audio self =
     (case DeviceManager_init audio of
        Inl e \<Rightarrow> (False, self)
      | Inr dm \<Rightarrow>
          (case get_recording_capable_devices audio dm of
             Inl e \<Rightarrow> (False, self)
           | Inr (recording_devices, dm') \<Rightarrow>
               (case recording_devices of
                  [] \<Rightarrow> (False, self)
                | d # _ \<Rightarrow>
                    if max_input_channels d = 0 then
                      (case filter (\<lambda>d. max_input_channels d > 0) recording_devices of
                         [] \<Rightarrow> (False, self)
                       | v # _ \<Rightarrow> (True, self\<lparr>self_config := Some (auto_config v)\<rparr>))
                    else (True, self\<lparr>self_config := Some (auto_config d)\<rparr>))))"

text \<open>\<open>_cleanup_recording\<close>.\<close>

definition cleanup_recording :: "AudioRecorder \<Rightarrow> AudioRecorder" where
  "cleanup_recording self =
     self\<lparr>self_recording := False, self_stream := None, self_frames := [], self_stats := None\<rparr>"

text \<open>
  What \<open>start_recording\<close> asks of its surroundings: the audio subsystem (for
  \<open>set_device_auto\<close>), the formatted local time, \<open>datetime.now()\<close>, the exception of
  \<open>mkdir\<close> if it raises, and the answer of \<open>self._audio.open\<close>.
\<close>

record start_env =
  env_audio :: audio_system
  env_timestamp :: string
  env_now :: real
  env_mkdir :: "error option"
  env_open :: "error + nat"

text \<open>The file name of \<open>start_recording\<close>: old extension removed, the expected one added.\<close>

fun strip_ext :: "string list \<Rightarrow> string \<Rightarrow> string" where
  "strip_ext [] fname = fname"
| "strip_ext (ext # exts) fname =
     (if endswith fname ext then take (length fname - length ext) fname
      else strip_ext exts fname)"

definition normalize_filename :: "string \<Rightarrow> string \<Rightarrow> string" where
  "normalize_filename expected_ext fname =
     (let stripped = strip_ext [''.wav'', ''.m4a'', ''.mp4''] fname in
      if \<not> endswith stripped expected_ext then stripped @ expected_ext else stripped)"

text \<open>
  \<open>start_recording\<close>, returning the path or the exception, and the recorder after
  the call. The path \<open>output_dir / filename\<close> is written with a slash.
\<close>

definition start_recording ::
  "start_env \<Rightarrow> string option \<Rightarrow> AudioRecorder \<Rightarrow> (error + string) \<times> AudioRecorder" where
  "start_recording env fname self =
     (if self_recording self
      then (Inl (Exc RecordingInProgressError ''Recording is already in progress''), self)
      else
        (let (configured, self1) =
               (if self_config self = None then set_device_auto (env_audio env) self
                else (True, self)) in
         case self_config self1 of
           None \<Rightarrow> (Inl (Exc AudioRecorderError ''Could not configure audio device''), self1)
         | Some config \<Rightarrow>
             if \<not> configured
             then (Inl (Exc AudioRecorderError ''Could not configure audio device''), self1)
             else
               (let filename1 =
                      (case fname of
                         None \<Rightarrow> ''meeting_'' @ env_timestamp env
                       | Some f \<Rightarrow> if f = [] then ''meeting_'' @ env_timestamp env else f);
                    expected_ext = ''.'' @ lower (audio_format config);
                    filename2 = normalize_filename expected_ext filename1
                in case env_mkdir env of
                     Some e \<Rightarrow> (Inl e, self1)
                   | None \<Rightarrow>
                       (let filepath = output_dir config @ ''/'' @ filename2;
                            self2 = self1\<lparr>self_stats :=
                                      Some \<lparr>start_time = env_now env, end_time = None,
                                            duration = 0, file_size = 0, samples_recorded = 0,
                                            filename = Some filepath\<rparr>,
                                    self_frames := []\<rparr>
                        in case env_open env of
                             Inl e \<Rightarrow>
                               (Inl (Exc AudioRecorderError
                                       (''Failed to start recording: '' @ str e)),
                                cleanup_recording self2)
                           | Inr stream \<Rightarrow>
                               (Inr filepath,
                                self2\<lparr>self_stream := Some stream,
                                      self_recording := True\<rparr>)))))"

text \<open>
  \<open>_calculate_audio_level\<close>: the little-endian signed 16-bit samples of the chunk and
  their root mean square. \<open>struct.unpack\<close> raises on a chunk of odd length, and the
  handler returns \<open>0.0\<close>.
\<close>

definition int16_le :: "byte \<Rightarrow> byte \<Rightarrow> int" where
  "int16_le lo hi = (let v = uint lo + 256 * uint hi in if v < 32768 then v else v - 65536)"

fun unpack_int16 :: "bytes \<Rightarrow> int list" where
  "unpack_int16 (lo # hi # rest) = int16_le lo hi # unpack_int16 rest"
| "unpack_int16 _ = []"

definition calculate_audio_level :: "bytes \<Rightarrow> real" where
  "calculate_audio_level data =
     (if odd (length data) then 0
      else
        (let samples = unpack_int16 data in
         if samples \<noteq> []
         then sqrt (real_of_int (sum_list (map (\<lambda>s. s\<^sup>2) samples)) / real (length samples))
         else 0))"

text \<open>
  One pass of the \<open>while\<close> loop of \<open>_recording_worker\<close>. What the pass meets is a
  \<open>tick\<close>: whether the controlling thread has cleared \<open>self._recording\<close> since the last
  test, the answer of \<open>is_stopped()\<close>, how long the blocking read takes, and what it
  returns or raises; then how long the rest of the pass computes (the level of the
  chunk, the progress callback, the logging) and how long \<open>time.sleep(0.05)\<close>
  lasts, which is at least the 0.05 s asked for. The clock advances by the read and
  the work, and by the sleep on the paths that reach it.
\<close>

datatype read_outcome = ReadData bytes | ReadRaises error

record tick =
  cancelled :: bool
  stream_stopped :: bool
  read_seconds :: real
  work_seconds :: real
  sleep_seconds :: real
  read_result :: read_outcome

datatype exit_reason =
    Cancelled
  | MaxDurationReached
  | StreamInterrupted
  | DeviceUnavailable
  | StreamInvalid
  | CriticalError

datatype loop_step = Continue real | Exit exit_reason

text \<open>The handler \<open>except Exception as e\<close> of the loop body: no sleep on this path.\<close>

definition on_read_exception :: "real \<Rightarrow> string \<Rightarrow> AudioRecorder \<Rightarrow> loop_step \<times> AudioRecorder" where
  "on_read_exception clock msg self =
     (if str_in ''invalid'' (lower msg) \<or> str_in ''closed'' (lower msg)
      then (Exit StreamInvalid, self)
      else (Continue clock, self))"

definition worker_iteration ::
  "real \<Rightarrow> real \<Rightarrow> tick \<Rightarrow> AudioRecorder \<Rightarrow> loop_step \<times> AudioRecorder" where
  "worker_iteration start clock t self =
     (if \<not> self_recording self then (Exit Cancelled, self)
      else
        (case self_config self of
           None \<Rightarrow> (Exit CriticalError, self)
         | Some config \<Rightarrow>
             (let elapsed = clock - start in
              if (case max_duration config of
                    None \<Rightarrow> False
                  | Some d \<Rightarrow> d \<noteq> 0 \<and> elapsed \<ge> real_of_int d)
              then (Exit MaxDurationReached, self\<lparr>self_recording := False\<rparr>)
              else if self_stream self = None \<or> stream_stopped t
              then (Exit StreamInterrupted, self)
              else
                (case read_result t of
                   ReadRaises e \<Rightarrow>
                     if class_of e = OSError
                        \<and> (str_in ''unanticipated host error'' (str e)
                           \<or> str_in ''device unavailable'' (str e))
                     then (Exit DeviceUnavailable, self)
                     else on_read_exception (clock + read_seconds t + work_seconds t)
                            (str e) self
                 | ReadData data \<Rightarrow>
                     if length data > 0 then
                       (let self1 = self\<lparr>self_frames := self_frames self @ [data],
                                         self_frames_captured := self_frames_captured self + 1\<rparr>
                        in case self_stats self1 of
                             None \<Rightarrow>
                               on_read_exception (clock + read_seconds t + work_seconds t)
                                 ''NoneType object has no attribute samples_recorded'' self1
                           | Some stats \<Rightarrow>
                               (let self2 = self1\<lparr>self_stats :=
                                              Some (stats\<lparr>samples_recorded :=
                                                samples_recorded stats + chunk_size config\<rparr>)\<rparr>;
                                    self3 =
                                      (if \<not> self_has_audio_detected self2
                                       then (if calculate_audio_level data
                                                  > self_audio_threshold self2
                                             then self2\<lparr>self_has_audio_detected := True\<rparr>
                                             else self2)
                                       else self2)
                                in (Continue (clock + read_seconds t + work_seconds t
                                                + sleep_seconds t), self3)))
                     else (Continue (clock + read_seconds t + work_seconds t
                                      + sleep_seconds t), self)))))"

text \<open>
  The loop over the ticks it meets, from the clock reading \<open>start\<close>. The result is the
  reason of the exit (\<open>None\<close> while the loop is still running when the ticks end), the
  clock at that moment, and the recorder.
\<close>

fun recording_worker ::
  "real \<Rightarrow> real \<Rightarrow> tick list \<Rightarrow> AudioRecorder \<Rightarrow> exit_reason option \<times> real \<times> AudioRecorder" where
  "recording_worker start clock [] self = (None, clock, self)"
| "recording_worker start clock (t # ts) self =
     (case worker_iteration start clock t
             (if cancelled t then self\<lparr>self_recording := False\<rparr> else self) of
        (Exit r, self') \<Rightarrow> (Some r, clock, self')
      | (Continue clock', self') \<Rightarrow> recording_worker start clock' ts self')"

text \<open>
  The encoder. A WAV file is what Python's \<open>wave\<close> module keeps of it: the three
  parameters of the header and the bytes of the data chunk. Its setters refuse a
  channel count below 1, a sample width outside 1..4 and a frame rate that is not
  positive; the exception that then leaves the \<open>with\<close> block is the one that closing
  the unfinished file raises, which names the first parameter that is not set.
  The header is packed with \<open>struct.pack\<close> into fields of 16 and 32 bits (the
  channel count and the frame size in 16, the rate, the byte rate and 36 plus the
  data length in 32), which raises \<open>struct.error\<close> for a value that does not fit.
  Reading the file back, the number of frames is the length of the data chunk divided
  by the frame size, and the header is 44 bytes long.
\<close>

record wav_file =
  nchannels :: int
  sampwidth :: int
  framerate :: int
  wav_data :: bytes

definition getnframes :: "wav_file \<Rightarrow> int" where
  "getnframes f = int (length (wav_data f)) div (nchannels f * sampwidth f)"

definition wav_size :: "wav_file \<Rightarrow> nat" where
  "wav_size f = 44 + length (wav_data f)"

datatype written_file = Wav wav_file | M4a nat

text \<open>
  What \<open>stop_recording\<close> asks of its surroundings: \<open>datetime.now()\<close>, whether pydub was
  imported, the answer of \<open>get_sample_size\<close> for the configured format, the exception
  of \<open>wave.open\<close> if it raises, and the answer of pydub's export (the size of the
  encoded file).
\<close>

record stop_env =
  stop_now :: real
  PYDUB_AVAILABLE :: bool
  get_sample_size :: "error + int"
  wave_open :: "error option"
  pydub_export :: "error + nat"

definition save_as_wav :: "stop_env \<Rightarrow> RecordingConfig \<Rightarrow> bytes list \<Rightarrow> error + wav_file" where
  "save_as_wav env config frames =
     (case wave_open env of
        Some e \<Rightarrow> Inl e
      | None \<Rightarrow>
          if channels config < 1 then Inl (Exc WaveError ''# channels not specified'')
          else
            (case get_sample_size env of
               Inl e \<Rightarrow> Inl (Exc WaveError ''sample width not specified'')
             | Inr width \<Rightarrow>
                 if width < 1 \<or> width > 4
                 then Inl (Exc WaveError ''sample width not specified'')
                 else if sample_rate config \<le> 0
                 then Inl (Exc WaveError ''sampling rate not specified'')
                 else if 65536 \<le> channels config
                         \<or> 4294967296 \<le> sample_rate config
                         \<or> 4294967296 \<le> channels config * sample_rate config * width
                         \<or> 65536 \<le> channels config * width
                         \<or> 4294967296 \<le> 36 + int (length (concat frames))
                 then Inl (Exc StructError ''argument out of range'')
                 else Inr \<lparr>nchannels = channels config,
                           sampwidth = width,
                           framerate = sample_rate config,
                           wav_data = concat frames\<rparr>))"

text \<open>The two handlers of \<open>_save_as_m4a\<close>: \<open>ImportError\<close> first, then any exception.\<close>

definition m4a_handler :: "error \<Rightarrow> error" where
  "m4a_handler e =
     (if class_of e = ImportError
      then Exc AudioRecorderError
             (''Failed to encode M4A. Check if ffmpeg is installed: '' @ str e)
      else Exc AudioRecorderError (''Failed to save M4A file: '' @ str e))"

definition save_as_m4a :: "stop_env \<Rightarrow> RecordingConfig \<Rightarrow> bytes list \<Rightarrow> error + nat" where
  "save_as_m4a env config frames =
     (if \<not> PYDUB_AVAILABLE env
      then Inl (Exc AudioRecorderError
             ''pydub not available for M4A encoding. Install with: pip install pydub'')
      else
        (case get_sample_size env of
           Inl e \<Rightarrow> Inl (m4a_handler e)
         | Inr width \<Rightarrow>
             (case pydub_export env of
                Inl e \<Rightarrow> Inl (m4a_handler e)
              | Inr sz \<Rightarrow> Inr sz)))"

text \<open>
  \<open>_save_recording\<close>: the empty check is outside its \<open>try\<close>; everything raised inside
  becomes \<open>AudioRecorderError\<close> with the prefix \<open>Failed to write file\<close>.
\<close>

definition write_failed :: "error \<Rightarrow> error" where
  "write_failed e = Exc AudioRecorderError (''Failed to write file: '' @ str e)"

definition save_recording ::
  "stop_env \<Rightarrow> AudioRecorder \<Rightarrow> error + (AudioRecorder \<times> written_file)" where
  "save_recording env self =
     (if self_frames self = [] then Inl (Exc AudioRecorderError ''No audio data to save'')
      else
        (case (self_config self, self_stats self) of
           (Some config, Some stats) \<Rightarrow>
             (let fmt = (if audio_format config \<noteq> [] then lower (audio_format config)
                         else ''wav'')
              in if fmt = ''m4a'' then
                   (case save_as_m4a env config (self_frames self) of
                      Inl e \<Rightarrow> Inl (write_failed e)
                    | Inr sz \<Rightarrow>
                        Inr (self\<lparr>self_stats := Some (stats\<lparr>file_size := sz\<rparr>)\<rparr>, M4a sz))
                 else
                   (case save_as_wav env config (self_frames self) of
                      Inl e \<Rightarrow> Inl (write_failed e)
                    | Inr f \<Rightarrow>
                        Inr (self\<lparr>self_stats := Some (stats\<lparr>file_size := wav_size f\<rparr>)\<rparr>,
                             Wav f)))
         | _ \<Rightarrow> Inl (write_failed (Exc AttributeError ''NoneType object has no attribute''))))"

text \<open>
  \<open>stop_recording\<close>: the result or the exception, the recorder after the call, and
  the file written. The join of the worker thread is a wait and changes nothing here.
\<close>

definition stop_recording ::
  "stop_env \<Rightarrow> AudioRecorder \<Rightarrow> (error + RecordingStats) \<times> AudioRecorder \<times> written_file option" where
  "stop_recording env self =
     (if self_frames self = [] \<and> self_stats self = None
      then (Inl (Exc AudioRecorderError ''No recording to save''), self, None)
      else
        (let self1 = self\<lparr>self_recording := False, self_stream := None\<rparr> in
         case self_stats self1 of
           None \<Rightarrow>
             (Inl (Exc AttributeError ''NoneType object has no attribute end_time''), self1, None)
         | Some stats \<Rightarrow>
             (let stats1 = stats\<lparr>end_time := Some (stop_now env),
                                 duration := stop_now env - start_time stats\<rparr>;
                  self2 = self1\<lparr>self_stats := Some stats1\<rparr>
              in case save_recording env self2 of
                   Inl e \<Rightarrow>
                     (Inl (Exc AudioRecorderError (''Failed to save file: '' @ str e)),
                      self2, None)
                 | Inr (self3, f) \<Rightarrow>
                     (case self_stats self3 of
                        None \<Rightarrow> (Inl (Exc AttributeError ''no statistics''), self3, Some f)
                      | Some stats3 \<Rightarrow> (Inr stats3, self3, Some f)))))"

text \<open>\<open>get_frames_captured\<close>, \<open>has_audio_detected\<close>, \<open>get_current_stats\<close>, \<open>close\<close>.\<close>

definition get_frames_captured :: "AudioRecorder \<Rightarrow> int" where
  "get_frames_captured self = self_frames_captured self"

definition has_audio_detected :: "AudioRecorder \<Rightarrow> bool" where
  "has_audio_detected self = self_has_audio_detected self"

definition get_current_stats :: "real \<Rightarrow> AudioRecorder \<Rightarrow> RecordingStats option \<times> AudioRecorder" where
  "get_current_stats now self =
     (case self_stats self of
        None \<Rightarrow> (None, self)
      | Some stats \<Rightarrow>
          if self_recording self
          then (let stats1 = stats\<lparr>duration := now - start_time stats\<rparr>
                in (Some stats1, self\<lparr>self_stats := Some stats1\<rparr>))
          else (Some stats, self))"

definition close_recorder :: "stop_env \<Rightarrow> AudioRecorder \<Rightarrow> AudioRecorder" where
  "close_recorder env self =
     (if self_recording self then fst (snd (stop_recording env self)) else self)"

text \<open>
  A session is the interleaving of the operations of the controlling thread with
  the passes of the worker's loop: one step is one of them.
\<close>

inductive session_step :: "AudioRecorder \<Rightarrow> AudioRecorder \<Rightarrow> bool" where
  step_set_device_auto: "session_step s (snd (set_device_auto audio s))"
| step_start_recording: "session_step s (snd (start_recording env fname s))"
| step_worker_iteration: "session_step s (snd (worker_iteration start clock t s))"
| step_stop_recording: "session_step s (fst (snd (stop_recording senv s)))"
| step_get_current_stats: "session_step s (snd (get_current_stats now s))"
| step_close: "session_step s (close_recorder senv s)"

section \<open>The selection policy as the specification words it\<close>

text \<open>
  A device of the loopback-capable host API with output channels, and the policy of
  \<open>get_default_speakers\<close> in the order the specification gives: a loopback device,
  the default one first; else such an output device, the default one first; else
  nothing. \<open>find\<close> returns the first match in enumeration order.
\<close>

definition wasapi_output :: "AudioDevice \<Rightarrow> bool" where
  "wasapi_output d = (lower (host_api d) = ''windows wasapi'' \<and> max_output_channels d > 0)"

definition spec_default_speakers :: "AudioDevice list \<Rightarrow> AudioDevice option" where
  "spec_default_speakers devices =
     (if list_ex is_loopback devices then
        (if list_ex (\<lambda>d. is_loopback d \<and> is_default d) devices
         then find (\<lambda>d. is_loopback d \<and> is_default d) devices
         else find is_loopback devices)
      else if list_ex wasapi_output devices then
        (if list_ex (\<lambda>d. wasapi_output d \<and> is_default d) devices
         then find (\<lambda>d. wasapi_output d \<and> is_default d) devices
         else find wasapi_output devices)
      else None)"

section \<open>Concrete hosts and sessions\<close>

text \<open>
  A host with one host API, WASAPI, whose devices are the given dictionaries and
  which reports no default device.
\<close>

definition no_default :: "error + device_info" where
  "no_default = Inl (Exc OSError ''No Default Device Available'')"

definition system_of :: "device_info list \<Rightarrow> audio_system" where
  "system_of infos =
     \<lparr>pyaudio_init = None,
      get_host_api_count = Inr 1,
      get_host_api_info_by_index =
        (\<lambda>i. if i = 0 then Inr \<lparr>api_name = ''Windows WASAPI''\<rparr>
             else Inl (Exc OSError ''Invalid host api index'')),
      get_device_count = Inr (length infos),
      get_device_info_by_index =
        (\<lambda>i. if i < length infos then Inr (infos ! i)
             else Inl (Exc OSError ''Invalid device index'')),
      get_default_input_device_info = no_default,
      get_default_output_device_info = no_default\<rparr>"

text \<open>A microphone and a loopback endpoint, as dictionaries and as listed devices.\<close>

definition mic_info :: device_info where
  "mic_info =
     \<lparr>info_index = 0, info_name = ''Microphone (USB Audio)'', hostApi = 0,
      maxInputChannels = 1, maxOutputChannels = 0, defaultSampleRate = 48000\<rparr>"

definition loop_info :: device_info where
  "loop_info =
     \<lparr>info_index = 0, info_name = ''Speakers (Realtek) [Loopback]'', hostApi = 0,
      maxInputChannels = 2, maxOutputChannels = 0, defaultSampleRate = 48000\<rparr>"

definition loop_dev :: AudioDevice where
  "loop_dev =
     \<lparr>index = 0, name = ''Speakers (Realtek) [Loopback]'', max_input_channels = 2,
      max_output_channels = 0, default_sample_rate = 48000,
      host_api = ''Windows WASAPI'', is_loopback = True, is_default = False\<rparr>"

definition mic_dev :: AudioDevice where
  "mic_dev =
     \<lparr>index = 1, name = ''Microphone'', max_input_channels = 1,
      max_output_channels = 0, default_sample_rate = 44100,
      host_api = ''MME'', is_loopback = False, is_default = True\<rparr>"

definition out_dev :: AudioDevice where
  "out_dev =
     \<lparr>index = 2, name = ''Line Out'', max_input_channels = 0,
      max_output_channels = 2, default_sample_rate = 44100,
      host_api = ''MME'', is_loopback = False, is_default = False\<rparr>"

text \<open>A dictionary whose host API index the host does not know, and two more devices.\<close>

definition broken_info :: device_info where
  "broken_info =
     \<lparr>info_index = 1, info_name = ''Ghost'', hostApi = 7,
      maxInputChannels = 0, maxOutputChannels = 2, defaultSampleRate = 44100\<rparr>"

definition wasapi_mic :: AudioDevice where
  "wasapi_mic =
     \<lparr>index = 3, name = ''Microphone Array'', max_input_channels = 2,
      max_output_channels = 0, default_sample_rate = 48000,
      host_api = ''Windows WASAPI'', is_loopback = False, is_default = False\<rparr>"

definition mme_mix :: AudioDevice where
  "mme_mix =
     \<lparr>index = 4, name = ''Stereo Mix'', max_input_channels = 2,
      max_output_channels = 0, default_sample_rate = 44100,
      host_api = ''MME'', is_loopback = True, is_default = True\<rparr>"

text \<open>
  A session: a mono configuration with buffers of two frames, a silent and a loud
  chunk of that size, surroundings in which starting and saving succeed, and a tick
  that reads a chunk in 0.09 s, computes for 0.002 s and sleeps 0.0501 s.
\<close>

definition test_config :: RecordingConfig where
  "test_config =
     \<lparr>device = loop_dev, sample_rate = 48000, channels = 1, chunk_size = 2,
      format = paInt16, max_duration = None,
      output_dir = ''storage/recordings'', audio_format = ''wav''\<rparr>"

definition quiet_chunk :: bytes where
  "quiet_chunk = [0, 0, 0, 0]"

definition loud_chunk :: bytes where
  "loud_chunk = [0x10, 0x27, 0xF0, 0xD8]"

definition start_ok :: start_env where
  "start_ok =
     \<lparr>env_audio = system_of [loop_info], env_timestamp = ''20240101_120000'',
      env_now = 0, env_mkdir = None, env_open = Inr 1\<rparr>"

definition stop_ok :: stop_env where
  "stop_ok =
     \<lparr>stop_now = 1, PYDUB_AVAILABLE = False, get_sample_size = Inr 2,
      wave_open = None, pydub_export = Inl (Exc OSError ''ffmpeg not found'')\<rparr>"

definition tick_of :: "bytes \<Rightarrow> tick" where
  "tick_of data =
     \<lparr>cancelled = False, stream_stopped = False, read_seconds = 0.09,
      work_seconds = 0.002, sleep_seconds = 0.0501, read_result = ReadData data\<rparr>"

text \<open>
  A session that was started; the same after the loop has read two chunks, the first
  of them loud; and the same after it was stopped and saved.
\<close>

definition recording_session :: AudioRecorder where
  "recording_session =
     snd (start_recording start_ok (Some ''first'') (AudioRecorder_init (Some test_config)))"

definition recorded_session :: AudioRecorder where
  "recorded_session =
     snd (snd (recording_worker 0 0 [tick_of loud_chunk, tick_of quiet_chunk] recording_session))"

definition saved_session :: AudioRecorder where
  "saved_session = fst (snd (stop_recording stop_ok recorded_session))"



text \<open>
  A session that has recorded one chunk for an M4A file, and surroundings in which
  the output file cannot be opened.
\<close>

definition m4a_config :: RecordingConfig where
  "m4a_config = test_config\<lparr>audio_format := ''m4a''\<rparr>"

definition m4a_recorded :: AudioRecorder where
  "m4a_recorded =
     snd (snd (recording_worker 0 0 [tick_of loud_chunk]
       (snd (start_recording start_ok (Some ''talk'') (AudioRecorder_init (Some m4a_config))))))"

definition stop_denied :: stop_env where
  "stop_denied = stop_ok\<lparr>wave_open := Some (Exc OSError ''Permission denied'')\<rparr>"

text \<open>
  The default configuration for the loopback endpoint (48 kHz, stereo, buffers of 4096
  frames), and a recording of 262144 buffers of that size: a little over six hours.
\<close>

definition long_config :: RecordingConfig where
  "long_config = auto_config loop_dev"

definition long_frames :: "bytes list" where
  "long_frames = replicate 262144 (replicate 16384 0)"

section \<open>Properties of the device catalogue\<close>

lemmas host_eval =
  is_loopback_device_def loopback_indicators_def lower_def lower_char_def
  make_device_def is_default_device_def system_of_def no_default_def
  list_all_devices_def Let_def

lemma startswith_prefix: "startswith s p \<longleftrightarrow> prefix p s"
  by (induction s p rule: startswith.induct) auto

lemma endswith_suffix: "endswith s p \<longleftrightarrow> suffix p s"
  by (simp add: endswith_def startswith_prefix suffix_to_prefix)

lemma str_in_sublist: "str_in sub s \<longleftrightarrow> sublist sub s"
  by (induction s) (auto simp: startswith_prefix sublist_Cons_right)

text \<open>
  C1. The classification by \<open>_is_loopback_device\<close>: a name with one of the six
  substrings is loopback; a device without such a name that has input channels and no
  output channels should still be loopback when it is on WASAPI, and no
  classification should drop a device from the listing. At the microphone
  \<open>mic_info\<close> (one input channel, no output channel, host API 0 = WASAPI) the code
  raises \<open>TypeError\<close> instead, and \<open>list_all_devices\<close> skips the device: the listing
  of a host that has only this microphone is empty.
\<close>

theorem is_loopback_device_input_only_raises:
  "is_loopback_device mic_info
     = Inl (Exc TypeError ''argument of type int is not iterable'')
   \<and> list_all_devices (system_of [mic_info]) \<lparr>devices_cache = None\<rparr> False
     = Inr ([], \<lparr>devices_cache = Some []\<rparr>)"
  by (simp add: host_eval mic_info_def)

text \<open>What the classification does on every dictionary.\<close>

lemma is_loopback_device_cases:
  "is_loopback_device i =
     (if (\<exists>ind \<in> set loopback_indicators. sublist ind (lower (info_name i))) then Inr True
      else if maxInputChannels i > 0 \<and> maxOutputChannels i = 0
      then Inl (Exc TypeError ''argument of type int is not iterable'')
      else Inr False)"
  by (simp add: is_loopback_device_def list_ex_iff str_in_sublist)

lemma find_filter: "find P (filter Q xs) = find (\<lambda>x. Q x \<and> P x) xs"
  by (induction xs) auto

lemma filter_Cons_find: "filter Q xs = y # ys \<Longrightarrow> find Q xs = Some y"
  by (induction xs) (auto split: if_splits)

lemma filter_Nil_ex: "filter Q xs = [] \<longleftrightarrow> \<not> list_ex Q xs"
  by (induction xs) auto

lemma find_None_ex: "find P xs = None \<longleftrightarrow> \<not> list_ex P xs"
  by (induction xs) auto

lemma pick_first_preferring:
  "(case filter Q xs of
      y # _ \<Rightarrow> (case find P (filter Q xs) of Some d \<Rightarrow> Some d | None \<Rightarrow> Some y)
    | [] \<Rightarrow> alt)
   = (if list_ex Q xs
      then (if list_ex (\<lambda>x. Q x \<and> P x) xs then find (\<lambda>x. Q x \<and> P x) xs else find Q xs)
      else alt)"
proof (cases "filter Q xs")
  case Nil
  have nex: "\<not> list_ex Q xs" using Nil filter_Nil_ex[of Q xs] by blast
  show ?thesis unfolding Nil using nex by simp
next
  case (Cons y ys)
  have ex: "list_ex Q xs" using Cons filter_Nil_ex[of Q xs] by fastforce
  have fq: "find Q xs = Some y" using Cons by (rule filter_Cons_find)
  have "(case filter Q xs of
      y # _ \<Rightarrow> (case find P (filter Q xs) of Some d \<Rightarrow> Some d | None \<Rightarrow> Some y)
    | [] \<Rightarrow> alt) = (case find (\<lambda>x. Q x \<and> P x) xs of Some d \<Rightarrow> Some d | None \<Rightarrow> Some y)"
    unfolding find_filter unfolding Cons by simp
  also have "\<dots> = (if list_ex (\<lambda>x. Q x \<and> P x) xs then find (\<lambda>x. Q x \<and> P x) xs else find Q xs)"
    using find_None_ex[of "\<lambda>x. Q x \<and> P x" xs] fq by (auto split: option.splits)
  finally show ?thesis using ex by simp
qed

lemma select_default_speakers_spec:
  "select_default_speakers devices = spec_default_speakers devices"
  unfolding select_default_speakers_def spec_default_speakers_def Let_def
    wasapi_output_def[abs_def, symmetric] pick_first_preferring ..

text \<open>
  C3. \<open>get_default_speakers\<close> selects by the policy of the specification: a loopback
  device, the default one if there is one, else the first; else a WASAPI device with
  output channels, the default one if there is one, else the first; else \<open>None\<close>.
  Whenever the listing succeeds it returns (also when nothing is found), and it raises
  \<open>AudioDeviceError\<close> exactly when the listing raises.
\<close>

theorem get_default_speakers_policy:
  "select_default_speakers devices = spec_default_speakers devices
   \<and> (list_all_devices audio self False = Inr (devices, self')
        \<longrightarrow> get_default_speakers audio self = Inr (spec_default_speakers devices, self'))
   \<and> (list_all_devices audio self False = Inl e
        \<longrightarrow> get_default_speakers audio self
              = Inl (Exc AudioDeviceError (''Failed to detect default device: '' @ str e)))"
  by (simp add: get_default_speakers_def select_default_speakers_spec)

theorem get_default_speakers_policy_witness:
  "list_all_devices (system_of [loop_info]) \<lparr>devices_cache = None\<rparr> False
     = Inr ([loop_dev], \<lparr>devices_cache = Some [loop_dev]\<rparr>)
   \<and> get_default_speakers (system_of [loop_info]) \<lparr>devices_cache = None\<rparr>
     = Inr (Some loop_dev, \<lparr>devices_cache = Some [loop_dev]\<rparr>)
   \<and> select_default_speakers [mic_dev, out_dev] = None"
proof -
  have h: "list_all_devices (system_of [loop_info]) \<lparr>devices_cache = None\<rparr> False
             = Inr ([loop_dev], \<lparr>devices_cache = Some [loop_dev]\<rparr>)"
    by (simp add: host_eval loop_info_def loop_dev_def)
  have s: "spec_default_speakers [loop_dev] = Some loop_dev"
    by (simp add: spec_default_speakers_def loop_dev_def)
  have n: "spec_default_speakers [mic_dev, out_dev] = None"
    by (simp add: spec_default_speakers_def wasapi_output_def mic_dev_def out_dev_def
        lower_def lower_char_def)
  from get_default_speakers_policy
         [where devices = "[loop_dev]" and audio = "system_of [loop_info]"
            and self = "\<lparr>devices_cache = None\<rparr>"
            and self' = "\<lparr>devices_cache = Some [loop_dev]\<rparr>"] h s
  have g: "get_default_speakers (system_of [loop_info]) \<lparr>devices_cache = None\<rparr>
             = Inr (Some loop_dev, \<lparr>devices_cache = Some [loop_dev]\<rparr>)"
    by simp
  from get_default_speakers_policy [where devices = "[mic_dev, out_dev]"] n
  have "select_default_speakers [mic_dev, out_dev] = None"
    by simp
  with h g show ?thesis by simp
qed

lemma make_device_index: "make_device audio i = Inr d \<Longrightarrow> index d = i"
  by (auto simp: make_device_def split: sum.splits)

lemma enumerate_devices_indices:
  "map index (enumerate_devices audio js) = filter (\<lambda>i. \<not> isl (make_device audio i)) js"
  by (induction js) (auto split: sum.splits dest: make_device_index)

lemma enumerate_devices_made:
  "d \<in> set (enumerate_devices audio js) \<Longrightarrow> make_device audio (index d) = Inr d"
  by (induction js) (auto split: sum.splits dest: make_device_index)

text \<open>
  C4, as the code has it. \<open>list_all_devices\<close> returns the cached list, and leaves the
  manager as it is, whenever \<open>refresh_cache\<close> is false and a list has been cached
  (the cache is not \<open>None\<close>; the cached list may be empty). When \<open>refresh_cache\<close> is
  true or nothing has been cached yet, it asks the host for the device count and
  visits every index below it: the listed devices are, in order, exactly those
  indices whose dictionary could be built (an index whose queries raise is skipped),
  and the list is cached. When the count itself cannot be had, it raises
  \<open>AudioDeviceError\<close>.
\<close>

theorem list_all_devices_cache_policy:
  "(devices_cache self = Some cached \<and> \<not> refresh
      \<longrightarrow> list_all_devices audio self refresh = Inr (cached, self))
   \<and> ((refresh \<or> devices_cache self = None) \<and> get_device_count audio = Inr n
      \<longrightarrow> list_all_devices audio self refresh
            = Inr (enumerate_devices audio [0..<n],
                   self\<lparr>devices_cache := Some (enumerate_devices audio [0..<n])\<rparr>)
          \<and> map index (enumerate_devices audio [0..<n])
            = filter (\<lambda>i. \<not> isl (make_device audio i)) [0..<n]
          \<and> (\<forall>d \<in> set (enumerate_devices audio [0..<n]). make_device audio (index d) = Inr d))
   \<and> ((refresh \<or> devices_cache self = None) \<and> get_device_count audio = Inl e
      \<longrightarrow> list_all_devices audio self refresh
            = Inl (Exc AudioDeviceError (''Failed to list devices: '' @ str e)))"
proof (intro conjI impI)
  assume "devices_cache self = Some cached \<and> \<not> refresh"
  then show "list_all_devices audio self refresh = Inr (cached, self)"
    by (simp add: list_all_devices_def)
next
  assume "(refresh \<or> devices_cache self = None) \<and> get_device_count audio = Inr n"
  then show "list_all_devices audio self refresh
            = Inr (enumerate_devices audio [0..<n],
                   self\<lparr>devices_cache := Some (enumerate_devices audio [0..<n])\<rparr>)"
    by (auto simp: list_all_devices_def Let_def split: option.splits bool.splits)
next
  show "map index (enumerate_devices audio [0..<n])
            = filter (\<lambda>i. \<not> isl (make_device audio i)) [0..<n]"
    by (rule enumerate_devices_indices)
next
  show "\<forall>d \<in> set (enumerate_devices audio [0..<n]). make_device audio (index d) = Inr d"
    by (blast intro: enumerate_devices_made)
next
  assume "(refresh \<or> devices_cache self = None) \<and> get_device_count audio = Inl e"
  then show "list_all_devices audio self refresh
            = Inl (Exc AudioDeviceError (''Failed to list devices: '' @ str e))"
    by (auto simp: list_all_devices_def split: option.splits bool.splits)
qed

theorem list_all_devices_cache_policy_witness:
  "list_all_devices (system_of [loop_info, broken_info, mic_info]) \<lparr>devices_cache = Some [mic_dev]\<rparr> False
     = Inr ([mic_dev], \<lparr>devices_cache = Some [mic_dev]\<rparr>)
   \<and> list_all_devices (system_of [loop_info, broken_info, mic_info]) \<lparr>devices_cache = Some [mic_dev]\<rparr> True
     = Inr ([loop_dev], \<lparr>devices_cache = Some [loop_dev]\<rparr>)
   \<and> list_all_devices ((system_of []) \<lparr>get_device_count := Inl (Exc OSError ''PortAudio not initialized'')\<rparr>)
        \<lparr>devices_cache = None\<rparr> False
     = Inl (Exc AudioDeviceError ''Failed to list devices: PortAudio not initialized'')"
proof -
  let ?a = "system_of [loop_info, broken_info, mic_info]"
  have n: "get_device_count ?a = Inr 3" by (simp add: system_of_def)
  have en: "enumerate_devices ?a [0..<3] = [loop_dev]"
    by (simp add: host_eval loop_info_def loop_dev_def broken_info_def mic_info_def upt_rec)
  have 1: "list_all_devices ?a \<lparr>devices_cache = Some [mic_dev]\<rparr> False
     = Inr ([mic_dev], \<lparr>devices_cache = Some [mic_dev]\<rparr>)"
    using list_all_devices_cache_policy
            [where self = "\<lparr>devices_cache = Some [mic_dev]\<rparr>" and cached = "[mic_dev]"
               and refresh = False and audio = ?a]
    by simp
  have 2: "list_all_devices ?a \<lparr>devices_cache = Some [mic_dev]\<rparr> True
     = Inr ([loop_dev], \<lparr>devices_cache = Some [loop_dev]\<rparr>)"
    using list_all_devices_cache_policy
            [where self = "\<lparr>devices_cache = Some [mic_dev]\<rparr>" and n = 3
               and refresh = True and audio = ?a] n en
    by simp
  have 3: "list_all_devices ((system_of []) \<lparr>get_device_count := Inl (Exc OSError ''PortAudio not initialized'')\<rparr>)
        \<lparr>devices_cache = None\<rparr> False
     = Inl (Exc AudioDeviceError ''Failed to list devices: PortAudio not initialized'')"
    using list_all_devices_cache_policy
            [where self = "\<lparr>devices_cache = None\<rparr>" and e = "Exc OSError ''PortAudio not initialized''"
               and refresh = False
               and audio = "(system_of []) \<lparr>get_device_count := Inl (Exc OSError ''PortAudio not initialized'')\<rparr>"]
    by simp
  from 1 2 3 show ?thesis by simp
qed

text \<open>
  C4, as the claim has it, says that an empty cache is listed again. A manager that
  listed a host without devices has cached the empty list; when a loopback endpoint
  has appeared since, a call without refresh still returns the empty list, although
  an enumeration would find the endpoint.
\<close>

theorem list_all_devices_empty_cache_counterexample:
  "list_all_devices (system_of []) \<lparr>devices_cache = None\<rparr> False
     = Inr ([], \<lparr>devices_cache = Some []\<rparr>)
   \<and> list_all_devices (system_of [loop_info]) \<lparr>devices_cache = Some []\<rparr> False
     = Inr ([], \<lparr>devices_cache = Some []\<rparr>)
   \<and> enumerate_devices (system_of [loop_info]) [0..<1] = [loop_dev]"
  by (simp add: host_eval loop_info_def loop_dev_def)

text \<open>
  C5. \<open>get_recording_capable_devices\<close> returns exactly the listed devices that have
  input channels (each as often as it is listed), in non-increasing order of the
  score (30 for WASAPI, 20 for loopback, 10 for default, added up), and the devices
  of any one score keep their enumeration order.
\<close>

theorem recording_capable_sorted_stable:
  "mset (recording_capable devices) = mset (filter (\<lambda>d. max_input_channels d > 0) devices)
   \<and> sorted_wrt (\<lambda>a b. score a \<ge> score b) (recording_capable devices)
   \<and> (\<forall>k. filter (\<lambda>d. score d = k) (recording_capable devices)
          = filter (\<lambda>d. score d = k) (filter (\<lambda>d. max_input_channels d > 0) devices))
   \<and> (list_all_devices audio self False = Inr (devices, self')
        \<longrightarrow> get_recording_capable_devices audio self = Inr (recording_capable devices, self'))"
proof (intro conjI allI impI)
  show "mset (recording_capable devices) = mset (filter (\<lambda>d. max_input_channels d > 0) devices)"
    by (simp add: recording_capable_def)
next
  have "sorted (map sort_key_of (recording_capable devices))"
    unfolding recording_capable_def by (rule sorted_sort_key)
  then show "sorted_wrt (\<lambda>a b. score a \<ge> score b) (recording_capable devices)"
    by (simp add: sorted_map sort_key_of_def)
next
  fix k
  have eq: "(\<lambda>d. score d = k) = (\<lambda>d. sort_key_of d = - k)"
    by (auto simp: sort_key_of_def)
  show "filter (\<lambda>d. score d = k) (recording_capable devices)
          = filter (\<lambda>d. score d = k) (filter (\<lambda>d. max_input_channels d > 0) devices)"
    unfolding recording_capable_def eq by (rule sort_key_stable)
next
  assume "list_all_devices audio self False = Inr (devices, self')"
  then show "get_recording_capable_devices audio self = Inr (recording_capable devices, self')"
    by (simp add: get_recording_capable_devices_def)
qed

lemmas dev_eval = recording_capable_def sort_key_of_def score_def lower_def lower_char_def
  mic_dev_def out_dev_def loop_dev_def wasapi_mic_def mme_mix_def

theorem recording_capable_sorted_stable_witness:
  "recording_capable [mic_dev, out_dev, wasapi_mic, mme_mix, loop_dev]
     = [loop_dev, wasapi_mic, mme_mix, mic_dev]
   \<and> map score [loop_dev, wasapi_mic, mme_mix, mic_dev] = [50, 30, 30, 10]
   \<and> get_recording_capable_devices (system_of [loop_info]) \<lparr>devices_cache = None\<rparr>
       = Inr ([loop_dev], \<lparr>devices_cache = Some [loop_dev]\<rparr>)"
proof -
  have h: "list_all_devices (system_of [loop_info]) \<lparr>devices_cache = None\<rparr> False
             = Inr ([loop_dev], \<lparr>devices_cache = Some [loop_dev]\<rparr>)"
    by (simp add: host_eval loop_info_def loop_dev_def)
  have r: "recording_capable [loop_dev] = [loop_dev]" by (simp add: dev_eval)
  have g: "get_recording_capable_devices (system_of [loop_info]) \<lparr>devices_cache = None\<rparr>
       = Inr ([loop_dev], \<lparr>devices_cache = Some [loop_dev]\<rparr>)"
    using recording_capable_sorted_stable
            [where devices = "[loop_dev]" and audio = "system_of [loop_info]"
               and self = "\<lparr>devices_cache = None\<rparr>"
               and self' = "\<lparr>devices_cache = Some [loop_dev]\<rparr>"] h r
    by simp
  have "recording_capable [mic_dev, out_dev, wasapi_mic, mme_mix, loop_dev]
     = [loop_dev, wasapi_mic, mme_mix, mic_dev]" by (simp add: dev_eval)
  moreover have "map score [loop_dev, wasapi_mic, mme_mix, mic_dev] = [50, 30, 30, 10]"
    by (simp add: dev_eval)
  ultimately show ?thesis using g by simp
qed

section \<open>Properties of the capture session\<close>

text \<open>
  The level of a chunk exceeds a threshold that is not negative exactly when the mean
  of the squared samples exceeds the square of the threshold; the evaluation of the
  concrete sessions.
\<close>

lemma sqrt_gt_iff: "0 \<le> t \<Longrightarrow> t < sqrt x \<longleftrightarrow> t\<^sup>2 < x"
  by (metis real_sqrt_less_iff real_sqrt_abs abs_of_nonneg)

lemma level_gt_iff:
  "0 \<le> t \<Longrightarrow> calculate_audio_level data > t \<longleftrightarrow>
     even (length data) \<and> unpack_int16 data \<noteq> []
     \<and> t\<^sup>2 < real_of_int (sum_list (map (\<lambda>s. s\<^sup>2) (unpack_int16 data))) / real (length (unpack_int16 data))"
  by (auto simp: calculate_audio_level_def Let_def sqrt_gt_iff)

lemma loud_chunk_level: "calculate_audio_level loud_chunk > 100"
  by (simp add: level_gt_iff loud_chunk_def int16_le_def)

lemma quiet_chunk_level: "\<not> calculate_audio_level quiet_chunk > 100"
  by (simp add: level_gt_iff quiet_chunk_def int16_le_def)

lemmas str_eval = lower_def lower_char_def endswith_def normalize_filename_def

lemma recording_session_eval: "recording_session =
  \<lparr>self_config = Some test_config, self_stream = Some 1, self_recording = True, self_frames = [],
   self_stats = Some \<lparr>start_time = 0, end_time = None, duration = 0, file_size = 0, samples_recorded = 0,
      filename = Some ''storage/recordings/first.wav''\<rparr>,
   self_frames_captured = 0, self_has_audio_detected = False, self_audio_threshold = 100\<rparr>"
  by (simp add: recording_session_def start_recording_def AudioRecorder_init_def test_config_def start_ok_def str_eval Let_def)

lemma recorded_session_eval: "recorded_session =
  \<lparr>self_config = Some test_config, self_stream = Some 1, self_recording = True, self_frames = [loud_chunk, quiet_chunk],
   self_stats = Some \<lparr>start_time = 0, end_time = None, duration = 0, file_size = 0, samples_recorded = 4,
      filename = Some ''storage/recordings/first.wav''\<rparr>,
   self_frames_captured = 2, self_has_audio_detected = True, self_audio_threshold = 100\<rparr>"
  using loud_chunk_level quiet_chunk_level
  by (simp add: recorded_session_def recording_session_eval worker_iteration_def tick_of_def test_config_def Let_def loud_chunk_def quiet_chunk_def)

lemma stop_recorded_session_eval: "stop_recording stop_ok recorded_session =
  (Inr \<lparr>start_time = 0, end_time = Some 1, duration = 1, file_size = 52, samples_recorded = 4,
      filename = Some ''storage/recordings/first.wav''\<rparr>,
   \<lparr>self_config = Some test_config, self_stream = None, self_recording = False, self_frames = [loud_chunk, quiet_chunk],
   self_stats = Some \<lparr>start_time = 0, end_time = Some 1, duration = 1, file_size = 52, samples_recorded = 4,
      filename = Some ''storage/recordings/first.wav''\<rparr>,
   self_frames_captured = 2, self_has_audio_detected = True, self_audio_threshold = 100\<rparr>,
   Some (Wav \<lparr>nchannels = 1, sampwidth = 2, framerate = 48000, wav_data = loud_chunk @ quiet_chunk\<rparr>))"
  by (simp add: recorded_session_eval stop_recording_def save_recording_def save_as_wav_def stop_ok_def test_config_def wav_size_def
       str_eval Let_def loud_chunk_def quiet_chunk_def)


lemma m4a_recorded_eval: "m4a_recorded =
  \<lparr>self_config = Some m4a_config, self_stream = Some 1, self_recording = True, self_frames = [loud_chunk],
   self_stats = Some \<lparr>start_time = 0, end_time = None, duration = 0, file_size = 0, samples_recorded = 2,
      filename = Some ''storage/recordings/talk.m4a''\<rparr>,
   self_frames_captured = 1, self_has_audio_detected = True, self_audio_threshold = 100\<rparr>"
  using loud_chunk_level
  by (simp add: m4a_recorded_def start_recording_def AudioRecorder_init_def m4a_config_def
       test_config_def start_ok_def str_eval Let_def worker_iteration_def tick_of_def loud_chunk_def)

lemma set_device_auto_frame:
  "self_recording (snd (set_device_auto audio s)) = self_recording s
   \<and> self_frames_captured (snd (set_device_auto audio s)) = self_frames_captured s
   \<and> self_has_audio_detected (snd (set_device_auto audio s)) = self_has_audio_detected s
   \<and> self_audio_threshold (snd (set_device_auto audio s)) = self_audio_threshold s"
  by (simp add: set_device_auto_def split: sum.splits prod.splits list.splits)

text \<open>
  C2, as the code has it. \<open>start_recording\<close> is rejected with
  \<open>RecordingInProgressError\<close>, the recorder left as it is, whenever the recorder is
  recording (\<open>self._recording\<close> is set). The flag is the only guard: a recorder that
  is not recording and has a configuration, whatever it has recorded before, starts
  when the directory can be made and the stream opens.
\<close>

theorem start_recording_guard:
  "(self_recording s \<longrightarrow>
      start_recording env fname s
        = (Inl (Exc RecordingInProgressError ''Recording is already in progress''), s))
   \<and> (\<not> self_recording s \<and> self_config s = Some c \<and> env_mkdir env = None
        \<and> env_open env = Inr st
      \<longrightarrow> \<not> isl (fst (start_recording env fname s))
          \<and> self_recording (snd (start_recording env fname s))
          \<and> self_stream (snd (start_recording env fname s)) = Some st)"
  by (simp add: start_recording_def Let_def)

theorem start_recording_guard_witness:
  "start_recording start_ok (Some ''again'') recording_session
     = (Inl (Exc RecordingInProgressError ''Recording is already in progress''), recording_session)
   \<and> \<not> isl (fst (start_recording start_ok (Some ''again'') saved_session))
   \<and> self_recording (snd (start_recording start_ok (Some ''again'') saved_session))"
proof -
  have r: "self_recording recording_session" by (simp add: recording_session_eval)
  have s: "\<not> self_recording saved_session \<and> self_config saved_session = Some test_config
           \<and> env_mkdir start_ok = None \<and> env_open start_ok = Inr 1"
    by (simp add: saved_session_def stop_recorded_session_eval start_ok_def)
  from start_recording_guard
         [where s = recording_session and env = start_ok and fname = "Some ''again''"] r
  have 1: "start_recording start_ok (Some ''again'') recording_session
     = (Inl (Exc RecordingInProgressError ''Recording is already in progress''), recording_session)"
    by simp
  from start_recording_guard
         [where s = saved_session and env = start_ok and fname = "Some ''again''"
            and c = test_config and st = 1] s
  have 2: "\<not> isl (fst (start_recording start_ok (Some ''again'') saved_session))
   \<and> self_recording (snd (start_recording start_ok (Some ''again'') saved_session))"
    by simp
  from 1 2 show ?thesis by simp
qed

text \<open>
  C2, as the claim has it, says that a session that was used is rejected. The session
  \<open>recorded_session\<close> has recorded two chunks; stopping it saves the file, and
  starting the saved session again succeeds.
\<close>

theorem start_recording_after_stop_counterexample:
  "fst (stop_recording stop_ok recorded_session)
     = Inr \<lparr>start_time = 0, end_time = Some 1, duration = 1, file_size = 52, samples_recorded = 4,
            filename = Some ''storage/recordings/first.wav''\<rparr>
   \<and> fst (start_recording start_ok (Some ''second.m4a'') saved_session) = Inr ''storage/recordings/second.wav''"
  by (simp add: saved_session_def stop_recorded_session_eval start_recording_def test_config_def start_ok_def str_eval Let_def)

text \<open>
  C10. \<open>start_recording\<close> never changes the counter of captured frames nor the
  audio-detected flag; when it succeeds it has emptied the frame buffer and put fresh
  statistics in place. So a recorder that is started a second time still reports the
  frames and the detection of its first recording.
\<close>

theorem start_recording_keeps_counters:
  "self_frames_captured (snd (start_recording env fname s)) = self_frames_captured s
   \<and> self_has_audio_detected (snd (start_recording env fname s)) = self_has_audio_detected s
   \<and> (fst (start_recording env fname s) = Inr path \<longrightarrow>
        self_frames (snd (start_recording env fname s)) = []
        \<and> self_stats (snd (start_recording env fname s))
            = Some \<lparr>start_time = env_now env, end_time = None, duration = 0, file_size = 0,
                    samples_recorded = 0, filename = Some path\<rparr>)"
proof -
  obtain b s1 where a: "set_device_auto (env_audio env) s = (b, s1)" by (cases "set_device_auto (env_audio env) s")
  have f: "self_frames_captured s1 = self_frames_captured s"
          "self_has_audio_detected s1 = self_has_audio_detected s"
    using set_device_auto_frame[of "env_audio env" s] a by simp_all
  show ?thesis
    using f a
    by (auto simp: start_recording_def Let_def cleanup_recording_def
             split: option.splits sum.splits prod.splits if_splits)
qed

theorem start_recording_keeps_counters_witness:
  "get_frames_captured saved_session = 2
   \<and> has_audio_detected saved_session
   \<and> fst (start_recording start_ok (Some ''second'') saved_session)
       = Inr ''storage/recordings/second.wav''
   \<and> self_frames (snd (start_recording start_ok (Some ''second'') saved_session)) = []
   \<and> self_stats (snd (start_recording start_ok (Some ''second'') saved_session))
       = Some \<lparr>start_time = 0, end_time = None, duration = 0, file_size = 0,
               samples_recorded = 0, filename = Some ''storage/recordings/second.wav''\<rparr>
   \<and> get_frames_captured (snd (start_recording start_ok (Some ''second'') saved_session)) = 2
   \<and> has_audio_detected (snd (start_recording start_ok (Some ''second'') saved_session))"
proof -
  have a: "self_frames_captured saved_session = 2 \<and> self_has_audio_detected saved_session"
    by (simp add: saved_session_def stop_recorded_session_eval)
  have p: "fst (start_recording start_ok (Some ''second'') saved_session)
       = Inr ''storage/recordings/second.wav''"
    by (simp add: saved_session_def stop_recorded_session_eval start_recording_def test_config_def start_ok_def
          str_eval Let_def)
  from start_recording_keeps_counters
         [where s = saved_session and env = start_ok and fname = "Some ''second''"
            and path = "''storage/recordings/second.wav''"] p a
  show ?thesis
    by (simp add: get_frames_captured_def has_audio_detected_def start_ok_def)
qed

text \<open>
  C9, as the code has it. When M4A output is asked for and pydub is not available,
  \<open>stop_recording\<close> fails with \<open>AudioRecorderError\<close>, whose message names the
  missing backend behind the prefixes of the two handlers it passed through; and
  every exception of \<open>stop_recording\<close> on a session that has statistics is of that
  same class \<open>AudioRecorderError\<close>.
\<close>

theorem stop_recording_m4a_without_pydub:
  "(self_frames s \<noteq> [] \<and> self_config s = Some c \<and> self_stats s = Some st
      \<and> lower (audio_format c) = ''m4a'' \<and> \<not> PYDUB_AVAILABLE env
     \<longrightarrow> fst (stop_recording env s)
           = Inl (Exc AudioRecorderError
                   (''Failed to save file: Failed to write file: ''
                    @ ''pydub not available for M4A encoding. Install with: pip install pydub'')))
   \<and> (self_stats s \<noteq> None \<and> fst (stop_recording env s) = Inl e
     \<longrightarrow> class_of e = AudioRecorderError)"
proof (intro conjI impI)
  assume h: "self_frames s \<noteq> [] \<and> self_config s = Some c \<and> self_stats s = Some st
      \<and> lower (audio_format c) = ''m4a'' \<and> \<not> PYDUB_AVAILABLE env"
  then have ne: "audio_format c \<noteq> []" by (auto simp: lower_def)
  from h ne show "fst (stop_recording env s)
           = Inl (Exc AudioRecorderError
                   (''Failed to save file: Failed to write file: ''
                    @ ''pydub not available for M4A encoding. Install with: pip install pydub''))"
    by (simp add: stop_recording_def save_recording_def save_as_m4a_def write_failed_def Let_def)
next
  assume "self_stats s \<noteq> None \<and> fst (stop_recording env s) = Inl e"
  then show "class_of e = AudioRecorderError"
    by (auto simp: stop_recording_def save_recording_def Let_def
             split: option.splits sum.splits prod.splits if_splits)
qed

theorem stop_recording_m4a_without_pydub_witness:
  "fst (stop_recording stop_ok m4a_recorded)
     = Inl (Exc AudioRecorderError
         (''Failed to save file: Failed to write file: ''
          @ ''pydub not available for M4A encoding. Install with: pip install pydub''))
   \<and> class_of (Exc AudioRecorderError
         ''Failed to save file: Failed to write file: Permission denied'')
       = AudioRecorderError"
proof -
  have 1: "fst (stop_recording stop_ok m4a_recorded)
     = Inl (Exc AudioRecorderError
         (''Failed to save file: Failed to write file: ''
          @ ''pydub not available for M4A encoding. Install with: pip install pydub''))"
    using stop_recording_m4a_without_pydub
            [where s = m4a_recorded and c = m4a_config and env = stop_ok
               and st = "\<lparr>start_time = 0, end_time = None, duration = 0, file_size = 0,
                          samples_recorded = 2,
                          filename = Some ''storage/recordings/talk.m4a''\<rparr>"]
    by (simp add: m4a_recorded_eval m4a_config_def test_config_def stop_ok_def lower_def lower_char_def)
  have d: "fst (stop_recording stop_denied recorded_session)
     = Inl (Exc AudioRecorderError
         ''Failed to save file: Failed to write file: Permission denied'')"
    by (simp add: recorded_session_eval stop_recording_def save_recording_def save_as_wav_def
       write_failed_def stop_ok_def stop_denied_def test_config_def
       str_eval Let_def loud_chunk_def quiet_chunk_def)
  have 2: "class_of (Exc AudioRecorderError
         ''Failed to save file: Failed to write file: Permission denied'')
       = AudioRecorderError"
    using stop_recording_m4a_without_pydub
            [where s = recorded_session and env = stop_denied
               and e = "Exc AudioRecorderError
                 ''Failed to save file: Failed to write file: Permission denied''"] d
    by (simp add: recorded_session_eval)
  from 1 2 show ?thesis by simp
qed

text \<open>
  C9, as the claim has it, says that the missing backend is reported by an error of
  its own class. The failure for the missing backend and the failure to open the file
  are both \<open>AudioRecorderError\<close>: only the messages differ.
\<close>

theorem stop_recording_same_class_counterexample:
  "fst (stop_recording stop_ok m4a_recorded)
     = Inl (Exc AudioRecorderError
         (''Failed to save file: Failed to write file: ''
          @ ''pydub not available for M4A encoding. Install with: pip install pydub''))
   \<and> fst (stop_recording stop_denied recorded_session)
     = Inl (Exc AudioRecorderError
         ''Failed to save file: Failed to write file: Permission denied'')"
  by (simp add: m4a_recorded_eval recorded_session_eval stop_recording_def save_recording_def save_as_m4a_def save_as_wav_def
       write_failed_def stop_ok_def stop_denied_def m4a_config_def test_config_def
       str_eval Let_def loud_chunk_def quiet_chunk_def)

lemma length_concat_uniform:
  "\<forall>x \<in> set xs. length x = n \<Longrightarrow> length (concat xs) = length xs * n"
  by (induction xs) auto

text \<open>
  C8, as the code has it. When the file can be opened, the sample width is 1 to 4
  bytes, there is at least one channel, the rate is positive, the parameters fit the
  fields of the header, and every captured chunk holds \<open>chunk_size\<close> frames
  (\<open>chunk_size * channels * width\<close> bytes): if 36 plus the size of the data is below
  \<open>2^32\<close>, \<open>_save_as_wav\<close> writes a file whose data are the chunks in append
  order, whose parameters are the configured channels, width and rate, and which reads
  back as \<open>N * chunk_size\<close> frames; if it is not, packing the header raises
  \<open>struct.error\<close> and no such file is written.
\<close>

theorem save_as_wav_roundtrip:
  "wave_open env = None \<and> get_sample_size env = Inr w \<and> 1 \<le> w \<and> w \<le> 4
     \<and> 1 \<le> channels c \<and> 0 < sample_rate c \<and> 0 \<le> chunk_size c
     \<and> (\<forall>chunk \<in> set frames. int (length chunk) = chunk_size c * (channels c * w))
     \<and> channels c * w < 65536 \<and> sample_rate c < 4294967296
     \<and> channels c * sample_rate c * w < 4294967296
   \<longrightarrow> (36 + int (length frames) * (chunk_size c * (channels c * w)) < 4294967296
        \<longrightarrow> (\<exists>f. save_as_wav env c frames = Inr f
              \<and> wav_data f = concat frames
              \<and> nchannels f = channels c \<and> sampwidth f = w \<and> framerate f = sample_rate c
              \<and> getnframes f = int (length frames) * chunk_size c))
     \<and> (4294967296 \<le> 36 + int (length frames) * (chunk_size c * (channels c * w))
        \<longrightarrow> save_as_wav env c frames = Inl (Exc StructError ''argument out of range''))"
proof (intro impI)
  assume h: "wave_open env = None \<and> get_sample_size env = Inr w \<and> 1 \<le> w \<and> w \<le> 4
     \<and> 1 \<le> channels c \<and> 0 < sample_rate c \<and> 0 \<le> chunk_size c
     \<and> (\<forall>chunk \<in> set frames. int (length chunk) = chunk_size c * (channels c * w))
     \<and> channels c * w < 65536 \<and> sample_rate c < 4294967296
     \<and> channels c * sample_rate c * w < 4294967296"
  let ?f = "\<lparr>nchannels = channels c, sampwidth = w, framerate = sample_rate c,
             wav_data = concat frames\<rparr>"
  have pos: "0 < channels c * w" using h by simp
  have "channels c * 1 \<le> channels c * w" using h by (intro mult_left_mono) auto
  then have ch: "channels c < 65536" using h by linarith
  have "\<forall>x \<in> set frames. length x = nat (chunk_size c * (channels c * w))"
    using h by auto
  then have "length (concat frames) = length frames * nat (chunk_size c * (channels c * w))"
    by (rule length_concat_uniform)
  moreover have "0 \<le> chunk_size c * (channels c * w)" using h pos by simp
  ultimately have len: "int (length (concat frames))
      = int (length frames) * (chunk_size c * (channels c * w))"
    by simp
  have len': "int (length (concat frames))
      = (int (length frames) * chunk_size c) * (channels c * w)"
    by (simp add: len algebra_simps)
  have "(int (length frames) * chunk_size c) * (channels c * w) div (channels c * w)
          = int (length frames) * chunk_size c"
    using h by (intro nonzero_mult_div_cancel_right) auto
  then have nf: "getnframes ?f = int (length frames) * chunk_size c"
    using len' by (simp only: getnframes_def wav_file.select_convs)
  show "(36 + int (length frames) * (chunk_size c * (channels c * w)) < 4294967296
        \<longrightarrow> (\<exists>f. save_as_wav env c frames = Inr f
              \<and> wav_data f = concat frames
              \<and> nchannels f = channels c \<and> sampwidth f = w \<and> framerate f = sample_rate c
              \<and> getnframes f = int (length frames) * chunk_size c))
     \<and> (4294967296 \<le> 36 + int (length frames) * (chunk_size c * (channels c * w))
        \<longrightarrow> save_as_wav env c frames = Inl (Exc StructError ''argument out of range''))"
  proof (intro conjI impI)
    assume small: "36 + int (length frames) * (chunk_size c * (channels c * w)) < 4294967296"
    have "save_as_wav env c frames = Inr ?f"
      using h ch small by (simp add: save_as_wav_def len)
    with nf show "\<exists>f. save_as_wav env c frames = Inr f
              \<and> wav_data f = concat frames
              \<and> nchannels f = channels c \<and> sampwidth f = w \<and> framerate f = sample_rate c
              \<and> getnframes f = int (length frames) * chunk_size c"
      by simp
  next
    assume big: "4294967296 \<le> 36 + int (length frames) * (chunk_size c * (channels c * w))"
    show "save_as_wav env c frames = Inl (Exc StructError ''argument out of range'')"
      using h big by (simp add: save_as_wav_def len)
  qed
qed

lemma long_config_eval:
  "long_config =
     \<lparr>device = loop_dev, sample_rate = 48000, channels = 2, chunk_size = 4096,
      format = paInt16, max_duration = None,
      output_dir = ''storage/recordings'', audio_format = ''wav''\<rparr>"
  by (simp add: long_config_def auto_config_def loop_dev_def)

theorem save_as_wav_roundtrip_witness:
  "\<not> isl (save_as_wav stop_ok test_config [loud_chunk, quiet_chunk])
   \<and> getnframes (projr (save_as_wav stop_ok test_config [loud_chunk, quiet_chunk])) = 2 * 2
   \<and> wav_data (projr (save_as_wav stop_ok test_config [loud_chunk, quiet_chunk]))
       = loud_chunk @ quiet_chunk
   \<and> framerate (projr (save_as_wav stop_ok test_config [loud_chunk, quiet_chunk])) = 48000
   \<and> save_as_wav stop_ok long_config long_frames
       = Inl (Exc StructError ''argument out of range'')"
proof -
  have "\<exists>f. save_as_wav stop_ok test_config [loud_chunk, quiet_chunk] = Inr f
          \<and> wav_data f = concat [loud_chunk, quiet_chunk]
          \<and> nchannels f = channels test_config \<and> sampwidth f = 2
          \<and> framerate f = sample_rate test_config
          \<and> getnframes f = int (length [loud_chunk, quiet_chunk]) * chunk_size test_config"
    using save_as_wav_roundtrip
            [where env = stop_ok and c = test_config and w = 2
               and frames = "[loud_chunk, quiet_chunk]"]
    by (simp add: stop_ok_def test_config_def loud_chunk_def quiet_chunk_def)
  moreover have "save_as_wav stop_ok long_config long_frames
       = Inl (Exc StructError ''argument out of range'')"
    using save_as_wav_roundtrip
            [where env = stop_ok and c = long_config and w = 2 and frames = long_frames]
    by (simp add: stop_ok_def long_config_eval long_frames_def)
  ultimately show ?thesis by (auto simp: test_config_def)
qed

text \<open>
  C8, as the claim has it, holds for every sequence of buffers. 262144 buffers of 4096
  stereo frames of 16 bits, each of the configured size, are \<open>2^32\<close> bytes of data:
  the 32-bit size field of the header cannot hold them, and the encoder raises.
\<close>

theorem save_as_wav_too_long_counterexample:
  "wave_open stop_ok = None \<and> get_sample_size stop_ok = Inr 2
   \<and> channels long_config = 2 \<and> sample_rate long_config = 48000
   \<and> chunk_size long_config = 4096
   \<and> length long_frames = 262144
   \<and> set long_frames = {replicate 16384 0}
   \<and> int (length (replicate 16384 (0 :: byte))) = chunk_size long_config * (channels long_config * 2)
   \<and> save_as_wav stop_ok long_config long_frames
       = Inl (Exc StructError ''argument out of range'')"
proof -
  have "length (concat long_frames) = length long_frames * 16384"
    by (rule length_concat_uniform) (simp add: long_frames_def)
  then have len: "int (length (concat long_frames)) = 4294967296"
    by (simp add: long_frames_def)
  have "save_as_wav stop_ok long_config long_frames
       = Inl (Exc StructError ''argument out of range'')"
    by (simp add: save_as_wav_def stop_ok_def long_config_eval len)
  then show ?thesis
    by (simp add: stop_ok_def long_config_eval long_frames_def)
qed

text \<open>\<open>stop_recording\<close> writes the file of \<open>_save_as_wav\<close> unless M4A is configured.\<close>

lemma stop_recording_writes_wav:
  assumes "self_frames s \<noteq> []" "self_config s = Some c" "self_stats s = Some st"
    and "lower (audio_format c) \<noteq> ''m4a''"
    and "save_as_wav env c (self_frames s) = Inr f"
  shows "snd (snd (stop_recording env s)) = Some (Wav f)"
  using assms
  by (simp add: stop_recording_def save_recording_def Let_def lower_def)

lemma start_recording_frame:
  "self_frames_captured (snd (start_recording env fname s)) = self_frames_captured s
   \<and> self_has_audio_detected (snd (start_recording env fname s)) = self_has_audio_detected s
   \<and> self_audio_threshold (snd (start_recording env fname s)) = self_audio_threshold s"
proof -
  obtain b s1 where a: "set_device_auto (env_audio env) s = (b, s1)"
    by (cases "set_device_auto (env_audio env) s")
  have f: "self_frames_captured s1 = self_frames_captured s"
          "self_has_audio_detected s1 = self_has_audio_detected s"
          "self_audio_threshold s1 = self_audio_threshold s"
    using set_device_auto_frame[of "env_audio env" s] a by simp_all
  show ?thesis
    using f a
    by (auto simp: start_recording_def Let_def cleanup_recording_def
             split: option.splits sum.splits prod.splits if_splits)
qed

lemma on_read_exception_frame:
  "snd (on_read_exception clock msg s) = s"
  by (simp add: on_read_exception_def)

lemma worker_iteration_detected_mono:
  "self_has_audio_detected s \<Longrightarrow> self_has_audio_detected (snd (worker_iteration start clock t s))"
  by (auto simp: worker_iteration_def Let_def on_read_exception_frame
           split: option.splits read_outcome.splits)

lemma worker_iteration_threshold:
  "self_audio_threshold (snd (worker_iteration start clock t s)) = self_audio_threshold s"
  by (auto simp: worker_iteration_def Let_def on_read_exception_frame
           split: option.splits read_outcome.splits)

lemma save_recording_frame:
  "save_recording env s = Inr (s', f) \<Longrightarrow>
     self_has_audio_detected s' = self_has_audio_detected s
     \<and> self_audio_threshold s' = self_audio_threshold s
     \<and> self_frames_captured s' = self_frames_captured s"
  by (auto simp: save_recording_def Let_def split: option.splits sum.splits if_splits)

lemma stop_recording_frame:
  "self_has_audio_detected (fst (snd (stop_recording env s))) = self_has_audio_detected s
   \<and> self_audio_threshold (fst (snd (stop_recording env s))) = self_audio_threshold s
   \<and> self_frames_captured (fst (snd (stop_recording env s))) = self_frames_captured s"
proof (cases "self_stats s")
  case None
  then show ?thesis by (simp add: stop_recording_def)
next
  case (Some st)
  let ?s2 = "s\<lparr>self_recording := False, self_stream := None,
               self_stats := Some (st\<lparr>end_time := Some (stop_now env),
                                     duration := stop_now env - start_time st\<rparr>)\<rparr>"
  show ?thesis
  proof (cases "save_recording env ?s2")
    case (Inl e)
    with Some show ?thesis by (simp add: stop_recording_def Let_def)
  next
    case (Inr p)
    obtain s3 f where p: "p = (s3, f)" by (cases p)
    from save_recording_frame[of env ?s2 s3 f] Inr p
    have "self_has_audio_detected s3 = self_has_audio_detected s
        \<and> self_audio_threshold s3 = self_audio_threshold s
        \<and> self_frames_captured s3 = self_frames_captured s" by simp
    with Some Inr p show ?thesis
      by (simp add: stop_recording_def Let_def split: option.splits)
  qed
qed

lemma get_current_stats_frame:
  "self_has_audio_detected (snd (get_current_stats now s)) = self_has_audio_detected s
   \<and> self_audio_threshold (snd (get_current_stats now s)) = self_audio_threshold s"
  by (simp add: get_current_stats_def Let_def split: option.splits)

lemma close_recorder_frame:
  "self_has_audio_detected (close_recorder env s) = self_has_audio_detected s
   \<and> self_audio_threshold (close_recorder env s) = self_audio_threshold s"
  by (simp add: close_recorder_def stop_recording_frame)

lemma session_step_detected:
  "session_step s s' \<Longrightarrow> self_has_audio_detected s \<Longrightarrow> self_has_audio_detected s'"
  by (induction rule: session_step.induct)
     (simp_all add: set_device_auto_frame start_recording_frame worker_iteration_detected_mono
        stop_recording_frame get_current_stats_frame close_recorder_frame)

lemma session_step_threshold:
  "session_step s s' \<Longrightarrow> self_audio_threshold s' = self_audio_threshold s"
  by (induction rule: session_step.induct)
     (simp_all add: set_device_auto_frame start_recording_frame worker_iteration_threshold
        stop_recording_frame get_current_stats_frame close_recorder_frame)

lemma session_steps_detected:
  "session_step\<^sup>*\<^sup>* s s' \<Longrightarrow> self_has_audio_detected s \<Longrightarrow> self_has_audio_detected s'"
  by (induction rule: rtranclp_induct) (auto dest: session_step_detected)

lemma session_steps_threshold:
  "session_step\<^sup>*\<^sup>* s s' \<Longrightarrow> self_audio_threshold s' = self_audio_threshold s"
  by (induction rule: rtranclp_induct) (auto dest: session_step_threshold)

text \<open>
  C7. The audio-detected flag of a new recorder is false and its threshold is 100,
  which no step of a session changes. A pass of the loop that reads a chunk whose
  level exceeds the threshold sets the flag. Once the flag is set, it is set after
  every further step of the session: passes of the loop, whatever they read, and the
  operations \<open>set_device_auto\<close>, \<open>start_recording\<close>, \<open>stop_recording\<close>,
  \<open>get_current_stats\<close> and \<open>close\<close>.
\<close>

theorem audio_detected_latches:
  "\<not> self_has_audio_detected (AudioRecorder_init config)
   \<and> self_audio_threshold (AudioRecorder_init config) = 100
   \<and> (session_step\<^sup>*\<^sup>* s s' \<longrightarrow> self_audio_threshold s' = self_audio_threshold s)
   \<and> (self_recording s \<and> self_config s = Some c \<and> self_stats s \<noteq> None
        \<and> self_stream s \<noteq> None \<and> \<not> stream_stopped t
        \<and> (\<forall>d. max_duration c = Some d \<longrightarrow> d = 0 \<or> clock - start < real_of_int d)
        \<and> read_result t = ReadData data \<and> data \<noteq> []
        \<and> calculate_audio_level data > self_audio_threshold s
      \<longrightarrow> self_has_audio_detected (snd (worker_iteration start clock t s)))
   \<and> (session_step\<^sup>*\<^sup>* s s' \<and> self_has_audio_detected s \<longrightarrow> self_has_audio_detected s')"
proof (intro conjI impI)
  show "\<not> self_has_audio_detected (AudioRecorder_init config)"
    by (simp add: AudioRecorder_init_def)
  show "self_audio_threshold (AudioRecorder_init config) = 100"
    by (simp add: AudioRecorder_init_def)
next
  assume "session_step\<^sup>*\<^sup>* s s'"
  then show "self_audio_threshold s' = self_audio_threshold s" by (rule session_steps_threshold)
next
  assume "self_recording s \<and> self_config s = Some c \<and> self_stats s \<noteq> None
        \<and> self_stream s \<noteq> None \<and> \<not> stream_stopped t
        \<and> (\<forall>d. max_duration c = Some d \<longrightarrow> d = 0 \<or> clock - start < real_of_int d)
        \<and> read_result t = ReadData data \<and> data \<noteq> []
        \<and> calculate_audio_level data > self_audio_threshold s"
  then show "self_has_audio_detected (snd (worker_iteration start clock t s))"
    by (auto simp: worker_iteration_def Let_def split: option.splits)
next
  assume "session_step\<^sup>*\<^sup>* s s' \<and> self_has_audio_detected s"
  then show "self_has_audio_detected s'" using session_steps_detected by blast
qed

theorem audio_detected_latches_witness:
  "\<not> self_has_audio_detected recording_session
   \<and> self_has_audio_detected (snd (worker_iteration 0 0 (tick_of loud_chunk) recording_session))
   \<and> self_has_audio_detected
       (snd (start_recording start_ok (Some ''next'')
         (fst (snd (stop_recording stop_ok
           (snd (worker_iteration 0 0.14 (tick_of quiet_chunk)
             (snd (worker_iteration 0 0 (tick_of loud_chunk) recording_session)))))))))"
proof -
  let ?s1 = "snd (worker_iteration 0 0 (tick_of loud_chunk) recording_session)"
  let ?s2 = "snd (worker_iteration 0 0.14 (tick_of quiet_chunk) ?s1)"
  let ?s3 = "fst (snd (stop_recording stop_ok ?s2))"
  let ?s4 = "snd (start_recording start_ok (Some ''next'') ?s3)"
  have 0: "\<not> self_has_audio_detected recording_session" by (simp add: recording_session_eval)
  have 1: "self_has_audio_detected ?s1"
    using audio_detected_latches
            [where s = recording_session and c = test_config and t = "tick_of loud_chunk"
               and data = loud_chunk and clock = 0 and start = 0] loud_chunk_level
    by (simp add: recording_session_eval test_config_def tick_of_def loud_chunk_def)
  have "session_step ?s1 ?s2" by (rule step_worker_iteration)
  moreover have "session_step ?s2 ?s3" by (rule step_stop_recording)
  moreover have "session_step ?s3 ?s4" by (rule step_start_recording)
  ultimately have path: "session_step\<^sup>*\<^sup>* ?s1 ?s4" by auto
  have 2: "self_has_audio_detected ?s4"
    using audio_detected_latches [where s = ?s1 and s' = ?s4] path 1 by blast
  from 0 1 2 show ?thesis by simp
qed







text \<open>A maximum duration of 0, like none, never ends the loop.\<close>

lemma max_duration_zero_unbounded:
  assumes "self_config s = Some c" "max_duration c = Some 0 \<or> max_duration c = None"
  shows "fst (worker_iteration start clock t s) \<noteq> Exit MaxDurationReached"
  using assms
  by (auto simp: worker_iteration_def Let_def on_read_exception_def
           split: option.splits read_outcome.splits)


end
